theory Spec2Isabelle
  imports Main
begin

section \<open>Exceptions\<close>

text \<open>
  A value thrown by C++ code is either an object of a class derived from
  \<^verbatim>\<open>std::exception\<close> or anything else (an int, a string, a user class outside that
  hierarchy). For the first kind the model keeps the dynamic class of the object and
  the text its \<^verbatim>\<open>what()\<close> returns; a user-defined class carries its name and whatever
  further members it has. For the second kind it keeps a description of the value.
\<close>

datatype exn_class =
    Runtime_error
  | Logic_error
  | Invalid_argument
  | NeuralFlowException
  | User_class string string

datatype thrown =
    StdException exn_class string
  | NonStandard string


section \<open>Node: construction\<close>

text \<open>
  \<^verbatim>\<open>maxRetries\<close> is a C++ \<^verbatim>\<open>int\<close> and \<^verbatim>\<open>waitMillis\<close> a \<^verbatim>\<open>long long\<close>. The only
  arithmetic the engine does on them is \<^verbatim>\<open>maxRetries - 1\<close> and \<^verbatim>\<open>++currentRetry\<close>, both
  inside the loop body, where \<^verbatim>\<open>0 <= currentRetry < maxRetries\<close> holds; neither can
  overflow there, so both fields are modelled as \<open>int\<close>.
\<close>

record node_config =
  maxRetries :: int
  waitMillis :: int

definition Node_ctor :: "int \<Rightarrow> int \<Rightarrow> thrown + node_config" where
  "Node_ctor retries waitMilliseconds =
     (if retries < 1 then Inl (StdException Invalid_argument ''maxRetries must be at least 1'')
      else if waitMilliseconds < 0 then
        Inl (StdException Invalid_argument ''waitMillis cannot be negative'')
      else Inr \<lparr>maxRetries = retries, waitMillis = waitMilliseconds\<rparr>)"

text \<open>\<^verbatim>\<open>BatchNode\<close>'s constructor only forwards to \<^verbatim>\<open>Node\<close>'s.\<close>

definition BatchNode_ctor :: "int \<Rightarrow> int \<Rightarrow> thrown + node_config" where
  "BatchNode_ctor retries waitMilliseconds = Node_ctor retries waitMilliseconds"

section \<open>Node: the retry engine\<close>

text \<open>
  The hooks a subclass supplies (\<^verbatim>\<open>exec\<close>, \<^verbatim>\<open>execFallback\<close>, \<^verbatim>\<open>execItem\<close>,
  \<^verbatim>\<open>execItemFallback\<close>) are parameters of the model. A hook works on a state \<open>'s\<close> (the
  subclass's own members and whatever else it reaches) and either returns a value or
  throws; in both cases it leaves a new state behind. \<^verbatim>\<open>exec\<close> and \<^verbatim>\<open>execItem\<close> also
  receive the value of the protected member \<^verbatim>\<open>currentRetry\<close>, which they can read
  and which changes from attempt to attempt.

  The engine's own state is \<^verbatim>\<open>currentRetry\<close>. The field \<open>events\<close> is a ghost log of
  what the engine did: each call of \<^verbatim>\<open>exec\<close>/\<^verbatim>\<open>execItem\<close> with its argument and what
  it threw (\<open>None\<close> when it returned), each call of a fallback with the exception object
  handed to it, and each \<^verbatim>\<open>sleep_for\<close> with its duration in milliseconds.
  \<^verbatim>\<open>sleep_for\<close> on a non-negative duration does not throw, so the handler around it in
  \<^verbatim>\<open>Node::internalExec\<close> is never entered.
\<close>

datatype 'a event =
    is_Exec: Exec_called 'a "thrown option"
  | is_Fallback: Fallback_called 'a thrown
  | is_Slept: Slept (duration: int)

record ('a, 's) node_state =
  currentRetry :: int
  user :: 's
  events :: "'a event list"


text \<open>The guarded \<^verbatim>\<open>sleep_for\<close> that ends both handlers.\<close>

definition sleep_between :: "node_config \<Rightarrow> ('a, 's) node_state \<Rightarrow> ('a, 's) node_state" where
  "sleep_between cfg st =
     (if currentRetry st < maxRetries cfg - 1 \<and> waitMillis cfg > 0
      then st\<lparr>events := events st @ [Slept (waitMillis cfg)]\<rparr>
      else st)"





section \<open>BatchNode\<close>




section \<open>BaseNode: params and the successor table\<close>

text \<open>
  \<^verbatim>\<open>Params\<close> is a \<^verbatim>\<open>std::map\<close> from strings to values, a partial function here. A
  \<^verbatim>\<open>shared_ptr<IBaseNode>\<close> is \<open>None\<close> when null and otherwise the address of a node
  object. Console output (\<^verbatim>\<open>logWarn\<close>) is not modelled.
\<close>

record 'v BaseNode =
  params :: "string \<rightharpoonup> 'v"
  successors :: "string \<rightharpoonup> nat"

definition setParamsInternal :: "(string \<rightharpoonup> 'v) \<Rightarrow> 'v BaseNode \<Rightarrow> 'v BaseNode" where
  "setParamsInternal newParams this = this\<lparr>params := newParams\<rparr>"

definition BaseNode_next ::
  "nat option \<Rightarrow> string \<Rightarrow> 'v BaseNode \<Rightarrow> thrown + ('v BaseNode \<times> nat)" where
  "BaseNode_next node action this =
     (case node of
        None \<Rightarrow> Inl (StdException Invalid_argument ''Successor node cannot be null'')
      | Some target \<Rightarrow> Inr (this\<lparr>successors := (successors this)(action \<mapsto> target)\<rparr>, target))"

definition BaseNode_next_default ::
  "nat option \<Rightarrow> 'v BaseNode \<Rightarrow> thrown + ('v BaseNode \<times> nat)" where
  "BaseNode_next_default node this = BaseNode_next node [] this"

definition getNextNode :: "string option \<Rightarrow> 'v BaseNode \<Rightarrow> nat option" where
  "getNextNode action this =
     (let actionKey = (case action of None \<Rightarrow> [] | Some a \<Rightarrow> a)
      in successors this actionKey)"

section \<open>Flow: orchestration\<close>

text \<open>
  \<^verbatim>\<open>std::map::insert(first, last)\<close> inserts each element of the range whose key is not
  yet in the map and leaves the entries already there as they are.
\<close>

definition map_insert_range :: "('k \<rightharpoonup> 'v) \<Rightarrow> ('k \<rightharpoonup> 'v) \<Rightarrow> ('k \<rightharpoonup> 'v)" where
  "map_insert_range m elems = (\<lambda>k. case m k of Some v \<Rightarrow> Some v | None \<Rightarrow> elems k)"

text \<open>
  The node objects live in a store indexed by address. \<open>sharedContext\<close> stands for the
  \<^verbatim>\<open>Context\<close> passed by reference together with any other state the nodes' hooks
  reach. Two ghost fields log what happened: \<open>visits\<close> gets, for every call of a node's
  \<^verbatim>\<open>internalRun\<close> made by the orchestration loop, the node's address and the params it
  holds at that moment; \<open>orchestrations\<close> gets the \<^verbatim>\<open>initialParams\<close> of every call of
  \<^verbatim>\<open>orchestrate\<close>.
\<close>

record ('v, 'c) world =
  heap :: "nat \<Rightarrow> 'v BaseNode"
  sharedContext :: 'c
  visits :: "(nat \<times> (string \<rightharpoonup> 'v)) list"
  orchestrations :: "(string \<rightharpoonup> 'v) list"

record 'v Flow = "'v BaseNode" +
  startNode :: "nat option"

text \<open>
  \<^verbatim>\<open>internalRun\<close> is virtual: \<open>irun n\<close> is what the node at address \<open>n\<close> does (its prep,
  internalExec and post) given its own params and the context. It returns the action or
  throws, and leaves its params (a node may write to them) and the context behind.

  The loop of \<^verbatim>\<open>orchestrate\<close> does not terminate on a graph with a cycle that the
  produced actions follow; the model is a partial function whose value is \<open>None\<close>
  then.
\<close>

partial_function (option) orchestrate_loop ::
  "(nat \<Rightarrow> (string \<rightharpoonup> 'v) \<Rightarrow> 'c \<Rightarrow> (thrown + string option) \<times> (string \<rightharpoonup> 'v) \<times> 'c) \<Rightarrow>
   (string \<rightharpoonup> 'v) \<Rightarrow> nat option \<Rightarrow> string option \<Rightarrow> ('v, 'c) world \<Rightarrow>
   ((thrown + string option) \<times> ('v, 'c) world) option" where
  "orchestrate_loop irun currentRunParams currentNode lastAction w =
     (case currentNode of
        None \<Rightarrow> Some (Inr lastAction, w)
      | Some n \<Rightarrow>
          (let w1 = w\<lparr>heap := (heap w)(n := setParamsInternal currentRunParams (heap w n))\<rparr>;
               w2 = w1\<lparr>visits := visits w1 @ [(n, params (heap w1 n))]\<rparr>
           in case irun n (params (heap w2 n)) (sharedContext w2) of
                (Inl e, p, c) \<Rightarrow>
                  Some (Inl e, w2\<lparr>heap := (heap w2)(n := (heap w2 n)\<lparr>params := p\<rparr>),
                                  sharedContext := c\<rparr>)
              | (Inr action, p, c) \<Rightarrow>
                  (let w3 = w2\<lparr>heap := (heap w2)(n := (heap w2 n)\<lparr>params := p\<rparr>),
                               sharedContext := c\<rparr>
                   in orchestrate_loop irun currentRunParams
                        (getNextNode action (heap w3 n)) action w3)))"

definition orchestrate ::
  "(nat \<Rightarrow> (string \<rightharpoonup> 'v) \<Rightarrow> 'c \<Rightarrow> (thrown + string option) \<times> (string \<rightharpoonup> 'v) \<times> 'c) \<Rightarrow>
   'v Flow \<Rightarrow> (string \<rightharpoonup> 'v) \<Rightarrow> ('v, 'c) world \<Rightarrow>
   ((thrown + string option) \<times> ('v, 'c) world) option" where
  "orchestrate irun this initialParams w =
     (let w0 = w\<lparr>orchestrations := orchestrations w @ [initialParams]\<rparr> in
      case startNode this of
        None \<Rightarrow> Some (Inr None, w0)
      | Some start \<Rightarrow>
          orchestrate_loop irun (map_insert_range (params this) initialParams)
            (Some start) None w0)"

text \<open>\<^verbatim>\<open>Flow::exec\<close> and \<^verbatim>\<open>BatchFlow::post\<close> only throw; \<open>'st\<close> is all the state there is.\<close>

definition Flow_exec :: "unit \<Rightarrow> 'st \<Rightarrow> (thrown + string option) \<times> 'st" where
  "Flow_exec prepResult st =
     (Inl (StdException Logic_error
        ''Flow::exec() is internal and should not be called directly. Use run().''), st)"

definition BatchFlow_post ::
  "'c \<Rightarrow> unit \<Rightarrow> string option \<Rightarrow> 'st \<Rightarrow> (thrown + string option) \<times> 'st" where
  "BatchFlow_post ctx prepResult execResult st =
     (Inl (StdException Logic_error ''Use postBatch for BatchFlow, not post.''), st)"

section \<open>BatchFlow\<close>



section \<open>Vocabulary for the properties\<close>

text \<open>
  Counts over a stretch of the ghost log: calls of \<^verbatim>\<open>exec\<close>/\<^verbatim>\<open>execItem\<close>, calls of a
  fallback, and the durations of the sleeps, in order.
\<close>

definition exec_calls :: "'a event list \<Rightarrow> nat" where
  "exec_calls evs = length (filter is_Exec evs)"

definition fallback_calls :: "'a event list \<Rightarrow> nat" where
  "fallback_calls evs = length (filter is_Fallback evs)"

definition delays :: "'a event list \<Rightarrow> int list" where
  "delays evs = map duration (filter is_Slept evs)"




section \<open>Example hooks\<close>








section \<open>Example flows\<close>

text \<open>
  A node whose \<^verbatim>\<open>internalRun\<close> copies what it finds in its params under \<open>k\<close> and \<open>own\<close>
  into the context and returns no action; a store of nodes with empty params and no
  successors; the same store with a standing param \<open>own = 7\<close> on node 0, alone and with
  node 1 as node 0's default successor; a Flow starting at node 0 with standing param
  \<open>k = 1\<close> and one with none; a node with successors under \<open>go\<close> and \<open>stop\<close>; and
  \<^verbatim>\<open>prepBatch\<close>/\<^verbatim>\<open>postBatch\<close> hooks of a BatchFlow.
\<close>

definition irun_probe ::
  "nat \<Rightarrow> (string \<rightharpoonup> int) \<Rightarrow> (string \<rightharpoonup> int) \<Rightarrow>
   (thrown + string option) \<times> (string \<rightharpoonup> int) \<times> (string \<rightharpoonup> int)" where
  "irun_probe n p ctx = (Inr None, p, ctx(''k'' := p ''k'', ''own'' := p ''own''))"

definition world0 :: "(int, string \<rightharpoonup> int) world" where
  "world0 = \<lparr>heap = (\<lambda>n. \<lparr>params = Map.empty, successors = Map.empty\<rparr>),
             sharedContext = Map.empty, visits = [], orchestrations = []\<rparr>"



definition flow_k1 :: "int Flow" where
  "flow_k1 = \<lparr>params = [''k'' \<mapsto> 1], successors = Map.empty, startNode = Some 0\<rparr>"


definition node_go_stop :: "int BaseNode" where
  "node_go_stop = \<lparr>params = Map.empty, successors = [''go'' \<mapsto> 1, ''stop'' \<mapsto> 3]\<rparr>"




section \<open>Construction is checked\<close>

text \<open>
  C8. Constructing a Node with \<open>maxRetries < 1\<close> or \<open>waitMillis < 0\<close> fails at once with
  \<^verbatim>\<open>std::invalid_argument\<close> (the configuration error); with \<open>maxRetries \<ge> 1\<close> and
  \<open>waitMillis \<ge> 0\<close> it succeeds and stores the two values; so every constructed Node has
  \<open>maxRetries \<ge> 1\<close> and \<open>waitMillis \<ge> 0\<close>.
\<close>

theorem Node_ctor_checked:
  "(retries < 1 \<or> waitMilliseconds < 0 \<longrightarrow>
      (\<exists>m. Node_ctor retries waitMilliseconds = Inl (StdException Invalid_argument m)))
   \<and> (1 \<le> retries \<and> 0 \<le> waitMilliseconds \<longrightarrow>
      Node_ctor retries waitMilliseconds =
        Inr \<lparr>maxRetries = retries, waitMillis = waitMilliseconds\<rparr>)
   \<and> (\<forall>cfg. Node_ctor retries waitMilliseconds = Inr cfg \<longrightarrow>
        1 \<le> maxRetries cfg \<and> 0 \<le> waitMillis cfg)"
  by (auto simp: Node_ctor_def)

theorem Node_ctor_checked_witness:
  "(\<exists>m. Node_ctor 0 5 = Inl (StdException Invalid_argument m))
   \<and> (\<exists>m. Node_ctor 3 (- 1) = Inl (StdException Invalid_argument m))
   \<and> Node_ctor 3 250 = Inr \<lparr>maxRetries = 3, waitMillis = 250\<rparr>
   \<and> 1 \<le> maxRetries \<lparr>maxRetries = 3, waitMillis = 250\<rparr>
   \<and> 0 \<le> waitMillis \<lparr>maxRetries = 3, waitMillis = 250\<rparr>"
  using Node_ctor_checked [of 0 5] Node_ctor_checked [of 3 "- 1"] Node_ctor_checked [of 3 250]
  by simp

section \<open>The retry loop\<close>

lemma counts_append [simp]:
  "exec_calls (xs @ ys) = exec_calls xs + exec_calls ys"
  "fallback_calls (xs @ ys) = fallback_calls xs + fallback_calls ys"
  "delays (xs @ ys) = delays xs @ delays ys"
  by (simp_all add: exec_calls_def fallback_calls_def delays_def)

lemma counts_simps [simp]:
  "exec_calls [] = 0" "fallback_calls [] = 0" "delays [] = []"
  "exec_calls (Exec_called a r # evs) = Suc (exec_calls evs)"
  "exec_calls (Fallback_called a x # evs) = exec_calls evs"
  "exec_calls (Slept d # evs) = exec_calls evs"
  "fallback_calls (Exec_called a r # evs) = fallback_calls evs"
  "fallback_calls (Fallback_called a x # evs) = Suc (fallback_calls evs)"
  "fallback_calls (Slept d # evs) = fallback_calls evs"
  "delays (Exec_called a r # evs) = delays evs"
  "delays (Fallback_called a x # evs) = delays evs"
  "delays (Slept d # evs) = d # delays evs"
  by (simp_all add: exec_calls_def fallback_calls_def delays_def)

lemma sleep_between_fields [simp]:
  "currentRetry (sleep_between cfg st) = currentRetry st"
  "user (sleep_between cfg st) = user st"
  by (simp_all add: sleep_between_def)











section \<open>Retries, fallback and delays\<close>







section \<open>What the fallback is given\<close>












section \<open>BatchNode: outputs and abort\<close>










section \<open>Successor table\<close>

text \<open>
  C6. Looking up the successor for an absent action reads the entry under the empty
  label. Registering a node under a label makes that node the one a later lookup of the
  label returns, whether or not the label was in use before (the last registration
  wins), returns the registered node, and leaves the entries under every other label,
  and the params, as they were.
\<close>

theorem successor_lookup_and_overwrite:
  "getNextNode None this = successors this []
   \<and> getNextNode None this = getNextNode (Some []) this
   \<and> (\<exists>this'. BaseNode_next (Some t) action this = Inr (this', t)
        \<and> getNextNode (Some action) this' = Some t
        \<and> (\<forall>b. b \<noteq> action \<longrightarrow> successors this' b = successors this b
                            \<and> getNextNode (Some b) this' = getNextNode (Some b) this)
        \<and> params this' = params this)"
  by (simp add: getNextNode_def BaseNode_next_def)

text \<open>Registering node 2 under \<open>go\<close>, where node 1 was, leaves \<open>stop\<close> at node 3.\<close>

theorem successor_lookup_and_overwrite_witness:
  "getNextNode (Some ''go'') node_go_stop = Some 1
   \<and> getNextNode None node_go_stop = successors node_go_stop []
   \<and> (\<exists>this'. BaseNode_next (Some 2) ''go'' node_go_stop = Inr (this', 2)
        \<and> getNextNode (Some ''go'') this' = Some 2
        \<and> successors this' ''stop'' = successors node_go_stop ''stop''
        \<and> getNextNode (Some ''stop'') this' = Some 3)"
proof -
  have g: "getNextNode (Some ''go'') node_go_stop = Some 1"
    and s: "getNextNode (Some ''stop'') node_go_stop = Some 3"
    by (simp_all add: getNextNode_def node_go_stop_def)
  have d: "''stop'' \<noteq> ''go''" by simp
  from successor_lookup_and_overwrite [of node_go_stop 2 "''go''"]
  obtain this' where "getNextNode None node_go_stop = successors node_go_stop []"
    and "BaseNode_next (Some 2) ''go'' node_go_stop = Inr (this', 2)"
    and "getNextNode (Some ''go'') this' = Some 2"
    and "\<forall>b. b \<noteq> ''go'' \<longrightarrow> successors this' b = successors node_go_stop b
                            \<and> getNextNode (Some b) this' = getNextNode (Some b) node_go_stop"
    by blast
  with g s d show ?thesis by auto
qed

section \<open>Disallowed calls\<close>

text \<open>
  C9. \<^verbatim>\<open>Flow::exec\<close> throws \<^verbatim>\<open>std::logic_error\<close> (the structural error) for every
  argument, and so does \<^verbatim>\<open>BatchFlow::post\<close>; neither changes any state.
\<close>

theorem disallowed_calls_throw:
  "Flow_exec prepResult st =
     (Inl (StdException Logic_error
        ''Flow::exec() is internal and should not be called directly. Use run().''), st)
   \<and> BatchFlow_post ctx prepResult' execResult st' =
     (Inl (StdException Logic_error ''Use postBatch for BatchFlow, not post.''), st')"
  by (simp add: Flow_exec_def BatchFlow_post_def)

section \<open>Orchestration\<close>

lemma orchestrate_loop_end:
  "orchestrate_loop irun crp None la w = Some (Inr la, w)"
  by (subst orchestrate_loop.simps) simp

lemma orchestrate_loop_threw:
  "irun n crp (sharedContext w) = (Inl e, p, c) \<Longrightarrow>
   orchestrate_loop irun crp (Some n) la w =
     Some (Inl e, w\<lparr>visits := visits w @ [(n, crp)],
                     heap := (heap w)(n := (heap w n)\<lparr>params := p\<rparr>), sharedContext := c\<rparr>)"
  by (subst orchestrate_loop.simps) (simp add: setParamsInternal_def)

lemma orchestrate_loop_step:
  "irun n crp (sharedContext w) = (Inr a, p, c) \<Longrightarrow>
   orchestrate_loop irun crp (Some n) la w =
     orchestrate_loop irun crp (getNextNode a (heap w n)) a
       (w\<lparr>visits := visits w @ [(n, crp)],
          heap := (heap w)(n := (heap w n)\<lparr>params := p\<rparr>), sharedContext := c\<rparr>)"
  by (subst orchestrate_loop.simps) (simp add: setParamsInternal_def getNextNode_def)

lemmas orchestrate_loop_eval = orchestrate_loop_end orchestrate_loop_threw orchestrate_loop_step




text \<open>
  C1 asks that on a key present in the Flow's params and in \<^verbatim>\<open>initialParams\<close> the node
  receive the value from \<^verbatim>\<open>initialParams\<close>. \<^verbatim>\<open>orchestrate\<close> builds the run params with
  \<^verbatim>\<open>std::map::insert\<close>, which keeps the entry already there: with Flow params \<open>k = 1\<close>
  and \<^verbatim>\<open>initialParams\<close> \<open>k = 2\<close> the node at the start is run with \<open>k = 1\<close>.
\<close>

theorem orchestrate_flow_value_wins:
  "map_option (\<lambda>(r, w'). (r, sharedContext w' ''k'', map (\<lambda>v. (fst v, snd v ''k'')) (visits w')))
     (orchestrate irun_probe flow_k1 [''k'' \<mapsto> 2] world0)
   = Some (Inr None, Some 1, [(0, Some 1)])"
  by (simp add: orchestrate_def orchestrate_loop_eval irun_probe_def flow_k1_def world0_def
        map_insert_range_def getNextNode_def)




section \<open>BatchFlow\<close>



end
